theory Spec2Isabelle
  imports Main "HOL-Library.Word" "HOL-Library.Char_ord" "HOL-Library.List_Lexorder"
begin

section \<open>Common data\<close>

text \<open>
  Go's \<open>[]byte\<close> is a list of characters (each \<open>char\<close> is one byte); a nil slice and an
  empty slice both have length zero and are the empty list. \<open>uint64\<close> is a 64-bit word.
\<close>

type_synonym bytes = "char list"
type_synonym u64 = "64 word"

datatype panic = Panic string

section \<open>tikv/server.go: errors and their conversion\<close>

text \<open>
  The \<open>mvcc\<close> key type and its method \<open>Raw\<close> are declared elsewhere in the repository: a
  key is given by its stored bytes together with what \<open>Raw()\<close> returns on it.
\<close>

record MvccKey =
  encoded :: bytes
  Raw :: bytes

record ErrLocked =
  el_Key :: MvccKey
  el_Primary :: bytes
  el_StartTS :: u64
  el_TTL :: u64

text \<open>
  A value of Go's interface \<open>error\<close>. The conversion code distinguishes the dynamic types
  \<open>*ErrLocked\<close> and \<open>ErrRetryable\<close> (a string type) from every other error, calls the
  method \<open>Error()\<close>, and unwraps with \<open>errors.Cause\<close>, which follows the \<open>Cause()\<close> method
  of wrapper errors. Each constructor carries the text its \<open>Error()\<close> method returns (the
  methods themselves are declared elsewhere in the repository); a wrapper also carries what
  its \<open>Cause()\<close> returns, which may be nil.
\<close>

datatype error =
    ErrLockedPtr ErrLocked string
  | ErrRetryableVal string string
  | ErrOpaque string
  | ErrCauser string "error option"

fun Error :: "error \<Rightarrow> string" where
  "Error (ErrLockedPtr l msg) = msg"
| "Error (ErrRetryableVal r msg) = msg"
| "Error (ErrOpaque msg) = msg"
| "Error (ErrCauser msg c) = msg"

text \<open>
  \<open>errors.Cause\<close> of github.com/pkg/errors: while the error is not nil and implements
  \<open>Cause()\<close>, replace it by its cause; the result is nil when a wrapper's cause is nil.
\<close>

fun Cause :: "error \<Rightarrow> error option" where
  "Cause (ErrCauser msg None) = None"
| "Cause (ErrCauser msg (Some e)) = Cause e"
| "Cause e = Some e"

record LockInfo =
  li_PrimaryLock :: bytes
  li_LockVersion :: u64
  li_Key :: bytes
  li_LockTtl :: u64

text \<open>
  \<open>kvrpcpb.KeyError\<close>: a message field that is not assigned keeps its zero value, nil for
  the pointer \<open>Locked\<close> and the empty string for \<open>Retryable\<close> and \<open>Abort\<close>.
\<close>

record KeyError =
  Locked :: "LockInfo option"
  Retryable :: string
  Abort :: string

definition KeyError_zero :: KeyError where
  "KeyError_zero = \<lparr>Locked = None, Retryable = [], Abort = []\<rparr>"

definition convertToKeyError :: "error \<Rightarrow> KeyError" where
  "convertToKeyError err =
     (case Cause err of
        Some (ErrLockedPtr locked msg) \<Rightarrow>
          KeyError_zero\<lparr>Locked := Some \<lparr>li_PrimaryLock = el_Primary locked,
                                          li_LockVersion = el_StartTS locked,
                                          li_Key = Raw (el_Key locked),
                                          li_LockTtl = el_TTL locked\<rparr>\<rparr>
      | Some (ErrRetryableVal r msg) \<Rightarrow>
          KeyError_zero\<lparr>Retryable := Error (ErrRetryableVal r msg)\<rparr>
      | _ \<Rightarrow> KeyError_zero\<lparr>Abort := Error err\<rparr>)"

text \<open>
  \<open>convertToKeyErrors\<close>: the loop over \<open>errs\<close> appends the conversion of each error that
  is not nil to \<open>keyErrors\<close>, which starts empty.
\<close>

fun convertToKeyErrors_loop :: "error option list \<Rightarrow> KeyError list \<Rightarrow> KeyError list" where
  "convertToKeyErrors_loop [] keyErrors = keyErrors"
| "convertToKeyErrors_loop (None # errs) keyErrors = convertToKeyErrors_loop errs keyErrors"
| "convertToKeyErrors_loop (Some err # errs) keyErrors =
     convertToKeyErrors_loop errs (keyErrors @ [convertToKeyError err])"

definition convertToKeyErrors :: "error option list \<Rightarrow> KeyError list" where
  "convertToKeyErrors errs = convertToKeyErrors_loop errs []"

text \<open>\<open>Pair\<close> of package tikv (the result unit of Scan and BatchGet) and \<open>kvrpcpb.KvPair\<close>.\<close>

record Pair =
  p_Key :: bytes
  p_Value :: bytes
  p_Err :: "error option"

record KvPair =
  kv_Error :: "KeyError option"
  kv_Key :: bytes
  kv_Value :: bytes

definition KvPair_zero :: KvPair where
  "KvPair_zero = \<lparr>kv_Error = None, kv_Key = [], kv_Value = []\<rparr>"

fun convertToPbPairs_loop :: "Pair list \<Rightarrow> KvPair list \<Rightarrow> KvPair list" where
  "convertToPbPairs_loop [] kvPairs = kvPairs"
| "convertToPbPairs_loop (p # pairs) kvPairs =
     (let kvPair = (case p_Err p of
                      None \<Rightarrow> KvPair_zero\<lparr>kv_Key := p_Key p, kv_Value := p_Value p\<rparr>
                    | Some e \<Rightarrow> KvPair_zero\<lparr>kv_Error := Some (convertToKeyError e)\<rparr>)
      in convertToPbPairs_loop pairs (kvPairs @ [kvPair]))"

definition convertToPbPairs :: "Pair list \<Rightarrow> KvPair list" where
  "convertToPbPairs pairs = convertToPbPairs_loop pairs []"

section \<open>tikv/server.go: request checks and handlers\<close>

datatype region_error = RaftEntryTooLarge

definition requestMaxSize :: int where
  "requestMaxSize = 6 * 1024 * 1024"

definition checkRequestSize :: "int \<Rightarrow> region_error option" where
  "checkRequestSize sz = (if sz \<ge> requestMaxSize then Some RaftEntryTooLarge else None)"

definition checkRequestContext :: "region_error option" where
  "checkRequestContext = None"

definition checkRequest :: "int \<Rightarrow> region_error option" where
  "checkRequest sz =
     (case checkRequestContext of Some err \<Rightarrow> Some err | None \<Rightarrow> checkRequestSize sz)"

datatype Op = Op_Put | Op_Del | Op_Lock | Op_Rollback

record Mutation =
  m_Op :: Op
  m_Key :: bytes
  m_Value :: bytes

record GetRequest =
  get_Key :: bytes
  get_Version :: u64

record ScanRequest =
  scan_StartKey :: bytes
  scan_Limit :: "32 word"
  scan_Version :: u64

record PrewriteRequest =
  pw_Mutations :: "Mutation list"
  pw_PrimaryLock :: bytes
  pw_StartVersion :: u64
  pw_LockTtl :: u64

record CommitRequest =
  cm_StartVersion :: u64
  cm_Keys :: "bytes list"
  cm_CommitVersion :: u64

record BatchGetRequest =
  bg_Keys :: "bytes list"
  bg_Version :: u64

record GetResponse =
  get_RegionError :: "region_error option"
  get_Error :: "KeyError option"
  get_Value :: bytes

record ScanResponse =
  scan_RegionError :: "region_error option"
  scan_Pairs :: "KvPair list"

record PrewriteResponse =
  pw_RegionError :: "region_error option"
  pw_Errors :: "KeyError list"

record CommitResponse =
  cm_RegionError :: "region_error option"
  cm_Error :: "KeyError option"

record BatchGetResponse =
  bg_RegionError :: "region_error option"
  bg_Pairs :: "KvPair list"

text \<open>
  Every response message has a field for a region error; a handler that does not assign it
  leaves it nil.
\<close>

text \<open>
  \<open>MVCCStore\<close> is declared elsewhere in the repository, so its operations are parameters of
  the handlers. \<open>'db\<close> is the content of the store: the reads are functions of it, the
  writes also return the content they leave.
\<close>

record 'db MVCCStore =
  mvcc_Get :: "bytes \<Rightarrow> u64 \<Rightarrow> 'db \<Rightarrow> bytes \<times> error option"
  mvcc_Scan :: "bytes \<Rightarrow> bytes \<Rightarrow> int \<Rightarrow> u64 \<Rightarrow> 'db \<Rightarrow> Pair list"
  mvcc_BatchGet :: "bytes list \<Rightarrow> u64 \<Rightarrow> 'db \<Rightarrow> Pair list"
  mvcc_Prewrite :: "Mutation list \<Rightarrow> bytes \<Rightarrow> u64 \<Rightarrow> u64 \<Rightarrow> 'db \<Rightarrow> error option list \<times> 'db"
  mvcc_Commit :: "bytes list \<Rightarrow> u64 \<Rightarrow> u64 \<Rightarrow> 'db \<Rightarrow> error option \<times> 'db"

record 'db Server =
  mvccStore :: "'db MVCCStore"
  svr_startKey :: bytes
  svr_endKey :: bytes

definition checkKeyInRegion :: "'db Server \<Rightarrow> bytes \<Rightarrow> bool" where
  "checkKeyInRegion svr key = True"

text \<open>
  A handler returns the panic it raises, or its response with the content of the store
  afterwards. The loops over the keys of a request panic at the first key for which
  \<open>checkKeyInRegion\<close> is false.
\<close>

definition KvGet :: "'db Server \<Rightarrow> GetRequest \<Rightarrow> 'db \<Rightarrow> panic + GetResponse \<times> 'db" where
  "KvGet svr req db =
     (if \<not> checkKeyInRegion svr (get_Key req) then Inl (Panic ''KvGet: key not in region'')
      else (case mvcc_Get (mvccStore svr) (get_Key req) (get_Version req) db of
              (val, Some err) \<Rightarrow>
                Inr (\<lparr>get_RegionError = None, get_Error = Some (convertToKeyError err), get_Value = []\<rparr>, db)
            | (val, None) \<Rightarrow> Inr (\<lparr>get_RegionError = None, get_Error = None, get_Value = val\<rparr>, db)))"

definition KvScan :: "'db Server \<Rightarrow> ScanRequest \<Rightarrow> 'db \<Rightarrow> panic + ScanResponse \<times> 'db" where
  "KvScan svr req db =
     (if \<not> checkKeyInRegion svr (scan_StartKey req)
      then Inl (Panic ''KvScan: startKey not in region'')
      else (let pairs = mvcc_Scan (mvccStore svr) (scan_StartKey req) (svr_endKey svr)
                          (uint (scan_Limit req)) (scan_Version req) db
            in Inr (\<lparr>scan_RegionError = None, scan_Pairs = convertToPbPairs pairs\<rparr>, db)))"

definition KvPrewrite ::
  "'db Server \<Rightarrow> PrewriteRequest \<Rightarrow> 'db \<Rightarrow> panic + PrewriteResponse \<times> 'db" where
  "KvPrewrite svr req db =
     (if \<not> list_all (\<lambda>m. checkKeyInRegion svr (m_Key m)) (pw_Mutations req)
      then Inl (Panic ''KvPrewrite: key not in region'')
      else (case mvcc_Prewrite (mvccStore svr) (pw_Mutations req) (pw_PrimaryLock req)
                   (pw_StartVersion req) (pw_LockTtl req) db of
              (errs, db') \<Rightarrow> Inr (\<lparr>pw_RegionError = None, pw_Errors = convertToKeyErrors errs\<rparr>, db')))"

definition KvCommit :: "'db Server \<Rightarrow> CommitRequest \<Rightarrow> 'db \<Rightarrow> panic + CommitResponse \<times> 'db" where
  "KvCommit svr req db =
     (if \<not> list_all (checkKeyInRegion svr) (cm_Keys req)
      then Inl (Panic ''KvCommit: key not in region'')
      else (case mvcc_Commit (mvccStore svr) (cm_Keys req) (cm_StartVersion req)
                   (cm_CommitVersion req) db of
              (Some err, db') \<Rightarrow> Inr (\<lparr>cm_RegionError = None, cm_Error = Some (convertToKeyError err)\<rparr>, db')
            | (None, db') \<Rightarrow> Inr (\<lparr>cm_RegionError = None, cm_Error = None\<rparr>, db')))"

definition KvBatchGet ::
  "'db Server \<Rightarrow> BatchGetRequest \<Rightarrow> 'db \<Rightarrow> panic + BatchGetResponse \<times> 'db" where
  "KvBatchGet svr req db =
     (if \<not> list_all (checkKeyInRegion svr) (bg_Keys req)
      then Inl (Panic ''KvBatchGet: key not in region'')
      else (let pairs = mvcc_BatchGet (mvccStore svr) (bg_Keys req) (bg_Version req) db
            in Inr (\<lparr>bg_RegionError = None, bg_Pairs = convertToPbPairs pairs\<rparr>, db)))"

section \<open>tikv/raftstore/worker.go: tasks and the worker loop\<close>

type_synonym taskType = "64 word"

definition taskTypeStop :: taskType where "taskTypeStop = 0"
definition taskTypeRaftLogGC :: taskType where "taskTypeRaftLogGC = 1"
definition taskTypeSplitCheck :: taskType where "taskTypeSplitCheck = 2"
definition taskTypeComputeHash :: taskType where "taskTypeComputeHash = 3"

record RegionEpoch =
  ConfVer :: u64
  Version :: u64

record Peer =
  peer_Id :: u64
  peer_StoreId :: u64

text \<open>\<open>metapb.Region\<close>; the epoch is a pointer and may be nil.\<close>

record Region =
  r_Id :: u64
  r_StartKey :: bytes
  r_EndKey :: bytes
  r_RegionEpoch :: "RegionEpoch option"
  r_Peers :: "Peer list"

text \<open>\<open>pdpb.CheckPolicy\<close> is a 32-bit enumeration with the values SCAN and APPROXIMATE.\<close>

type_synonym CheckPolicy = "32 word"

definition CheckPolicy_SCAN :: CheckPolicy where "CheckPolicy_SCAN = 0"
definition CheckPolicy_APPROXIMATE :: CheckPolicy where "CheckPolicy_APPROXIMATE = 1"

text \<open>The region of a split-check task is a pointer and may be nil.\<close>

record splitCheckTask =
  sc_region :: "Region option"
  sc_autoSplit :: bool
  sc_policy :: CheckPolicy

text \<open>
  The field \<open>data\<close> of a task has type \<open>interface{}\<close>: nil, a pointer to a split-check
  task, or a value of any other type (the payloads of the other task kinds).
\<close>

datatype taskData = NilData | SplitCheckTaskPtr splitCheckTask | OtherData nat

record task =
  tp :: taskType
  data :: taskData

text \<open>
  \<open>worker.start\<close>. The channel of a worker is a FIFO queue, so the consumer receives the
  tasks in the order in which they were sent: \<open>queue\<close> is that sequence. The runner is any
  implementation of \<open>taskRunner\<close>, a function of the task on the runner's own state \<open>'s\<close>.
  The consumer either returns at a stop task, running the deferred \<open>wg.Done()\<close>, or has
  received every task of the sequence and waits on the empty channel. The result records
  the tasks given to \<open>runner.run\<close> in the order of the calls, the runner's state, the
  counter of the wait group and the tasks left in the channel.
\<close>

datatype loop_status = Exited | Waiting

record 's consumer =
  status :: loop_status
  ran :: "task list"
  runner_state :: 's
  wg_counter :: int
  receiver :: "task list"

fun worker_loop ::
  "(task \<Rightarrow> 's \<Rightarrow> 's) \<Rightarrow> task list \<Rightarrow> task list \<Rightarrow> 's \<Rightarrow> int \<Rightarrow> 's consumer" where
  "worker_loop run [] executed s wg =
     \<lparr>status = Waiting, ran = executed, runner_state = s, wg_counter = wg, receiver = []\<rparr>"
| "worker_loop run (t # queue) executed s wg =
     (if tp t = taskTypeStop
      then \<lparr>status = Exited, ran = executed, runner_state = s, wg_counter = wg - 1,
            receiver = queue\<rparr>
      else worker_loop run queue (executed @ [t]) (run t s) wg)"

definition worker_start ::
  "(task \<Rightarrow> 's \<Rightarrow> 's) \<Rightarrow> task list \<Rightarrow> 's \<Rightarrow> int \<Rightarrow> 's consumer" where
  "worker_start run queue s wg = worker_loop run queue [] s (wg + 1)"

section \<open>tikv/raftstore/worker.go: the split-check runner\<close>

datatype Callback = EmptyCallback

datatype MsgType = MsgTypeNull | MsgTypeSplitRegion

record MsgSplitRegion =
  msr_RegionEpoch :: "RegionEpoch option"
  msr_SplitKeys :: "bytes list"
  msr_Callback :: Callback

record Msg =
  msg_Type :: MsgType
  msg_RegionID :: u64
  msg_Data :: MsgSplitRegion

text \<open>
  The split checker host, the key encoding functions and the router are declared
  elsewhere in the repository. A host is given by what its methods return, and the
  runner by the operations of its fields: \<open>coprocessorHost.newSplitCheckerHost\<close> with
  the engine, and \<open>router.send\<close>.
\<close>

record splitCheckerHost =
  skip :: bool
  policy :: CheckPolicy
  approximateSplitKeys :: "Region \<Rightarrow> bytes list \<times> error option"

record keys_pkg =
  EncStartKey :: "Region \<Rightarrow> bytes"
  EncEndKey :: "Region \<Rightarrow> bytes"
  OriginKey :: "bytes \<Rightarrow> bytes"

record splitCheckRunner =
  newSplitCheckerHost :: "Region \<Rightarrow> bool \<Rightarrow> CheckPolicy \<Rightarrow> splitCheckerHost"
  router_send :: "u64 \<Rightarrow> Msg \<Rightarrow> error option"

text \<open>What \<open>run\<close> does that can be observed: the log lines, the calls that look for
  split keys, and the messages given to the router.\<close>

datatype event =
    Debugf_executing u64 bytes bytes
  | Debugf_skip u64
  | Errorf_scan_failed u64 error
  | Errorf_approximate_failed u64 error
  | Warnf_send_failed u64 error
  | Debugf_no_need_to_send u64
  | Call_scanSplitKeys Region bytes bytes
  | Call_approximateSplitKeys Region
  | Call_router_send u64 Msg

text \<open>\<open>scanSplitKeys\<close> is a placeholder in the source: it returns no keys and no error.\<close>

definition scanSplitKeys ::
  "splitCheckRunner \<Rightarrow> splitCheckerHost \<Rightarrow> Region \<Rightarrow> bytes \<Rightarrow> bytes \<Rightarrow> bytes list \<times> error option"
  where "scanSplitKeys r spCheckerHost region startKey endKey = ([], None)"

text \<open>
  The \<open>switch\<close> of \<open>run\<close> on the policy of the host: the events of this part and the
  value of \<open>keys\<close> after it, or \<open>None\<close> where \<open>run\<close> returns inside the switch. A policy
  that is neither SCAN nor APPROXIMATE matches no case and leaves \<open>keys\<close> nil.
\<close>

definition run_switch ::
  "keys_pkg \<Rightarrow> splitCheckRunner \<Rightarrow> splitCheckerHost \<Rightarrow> Region \<Rightarrow> bytes \<Rightarrow> bytes
     \<Rightarrow> event list \<times> bytes list option" where
  "run_switch kp r host region startKey endKey =
     (if policy host = CheckPolicy_SCAN then
        (case scanSplitKeys r host region startKey endKey of
           (keys, Some err) \<Rightarrow>
             ([Call_scanSplitKeys region startKey endKey, Errorf_scan_failed (r_Id region) err],
              None)
         | (keys, None) \<Rightarrow> ([Call_scanSplitKeys region startKey endKey], Some keys))
      else if policy host = CheckPolicy_APPROXIMATE then
        (case approximateSplitKeys host region of
           (keys, Some err) \<Rightarrow>
             (case scanSplitKeys r host region startKey endKey of
                (keys', Some err') \<Rightarrow>
                  ([Call_approximateSplitKeys region,
                    Errorf_approximate_failed (r_Id region) err,
                    Call_scanSplitKeys region startKey endKey,
                    Errorf_scan_failed (r_Id region) err'], None)
              | (keys', None) \<Rightarrow>
                  ([Call_approximateSplitKeys region,
                    Errorf_approximate_failed (r_Id region) err,
                    Call_scanSplitKeys region startKey endKey], Some keys'))
         | (keys, None) \<Rightarrow> ([Call_approximateSplitKeys region], Some (map (OriginKey kp) keys)))
      else ([], Some []))"

text \<open>The end of \<open>run\<close>: the message for the keys found, if there are any.\<close>

definition run_send :: "splitCheckRunner \<Rightarrow> Region \<Rightarrow> bytes list \<Rightarrow> event list" where
  "run_send r region keys =
     (if length keys \<noteq> 0 then
        (let regionEpoch = r_RegionEpoch region;
             msg = \<lparr>msg_Type = MsgTypeSplitRegion, msg_RegionID = r_Id region,
                    msg_Data = \<lparr>msr_RegionEpoch = regionEpoch, msr_SplitKeys = keys,
                                msr_Callback = EmptyCallback\<rparr>\<rparr>
         in (case router_send r (r_Id region) msg of
               Some err \<Rightarrow> [Call_router_send (r_Id region) msg, Warnf_send_failed (r_Id region) err]
             | None \<Rightarrow> [Call_router_send (r_Id region) msg]))
      else [Debugf_no_need_to_send (r_Id region)])"

text \<open>
  \<open>splitCheckRunner.run\<close>: the type assertion on the data of the task and the read of
  \<open>region.Id\<close> panic on a task that carries no split-check payload or no region.
\<close>

definition splitCheckRunner_run ::
  "keys_pkg \<Rightarrow> splitCheckRunner \<Rightarrow> task \<Rightarrow> panic + event list" where
  "splitCheckRunner_run kp r t =
     (case data t of
        SplitCheckTaskPtr spCheckTask \<Rightarrow>
          (case sc_region spCheckTask of
             None \<Rightarrow> Inl (Panic ''invalid memory address or nil pointer dereference'')
           | Some region \<Rightarrow>
               (let regionId = r_Id region;
                    startKey = EncStartKey kp region;
                    endKey = EncEndKey kp region;
                    host = newSplitCheckerHost r region (sc_autoSplit spCheckTask)
                             (sc_policy spCheckTask)
                in if skip host
                   then Inr [Debugf_executing regionId startKey endKey, Debugf_skip regionId]
                   else (case run_switch kp r host region startKey endKey of
                           (evs, None) \<Rightarrow> Inr (Debugf_executing regionId startKey endKey # evs)
                         | (evs, Some keys) \<Rightarrow>
                             Inr (Debugf_executing regionId startKey endKey # evs
                                    @ run_send r region keys))))
      | _ \<Rightarrow> Inl (Panic ''interface conversion: interface {} is not *raftstore.splitCheckTask''))"

section \<open>node/main.go: the persisted layout and loadMeta\<close>

definition InternalKeyPrefix :: string where
  "InternalKeyPrefix = ''internal'' @ [CHR 0x5C]"

definition InternalRegionMetaPrefix :: bytes where
  "InternalRegionMetaPrefix = InternalKeyPrefix @ ''region''"

definition InternalStoreMetaKey :: bytes where
  "InternalStoreMetaKey = InternalKeyPrefix @ ''store''"

text \<open>\<open>strconv.FormatUint(i, 10)\<close>: the decimal digits of \<open>i\<close>, without leading zeros.\<close>

definition digit :: "nat \<Rightarrow> char" where
  "digit d = ''0123456789'' ! d"

function FormatUint10 :: "nat \<Rightarrow> string" where
  "FormatUint10 n = (if n < 10 then [digit n] else FormatUint10 (n div 10) @ [digit (n mod 10)])"
  by pat_completeness auto
termination
  by (relation "measure id") auto

declare FormatUint10.simps [simp del]

definition InternalRegionMetaKey :: "u64 \<Rightarrow> bytes" where
  "InternalRegionMetaKey regionId = InternalRegionMetaPrefix @ FormatUint10 (unat regionId)"

record Store =
  store_Id :: u64
  store_Address :: string

record Node =
  storeMeta :: Store
  regions :: "u64 \<rightharpoonup> Region"

text \<open>
  A read transaction of the database: its items in ascending order of their keys (the
  order in which an iterator visits them), each with what \<open>item.Value()\<close> returns, the
  value or an error.
\<close>

datatype db_error = ErrKeyNotFound | ErrValue string

type_synonym item = "db_error + bytes"
type_synonym txn = "(bytes \<times> item) list"

definition txn_Get :: "txn \<Rightarrow> bytes \<Rightarrow> db_error + item" where
  "txn_Get txn key = (case map_of txn key of None \<Rightarrow> Inl ErrKeyNotFound | Some i \<Rightarrow> Inr i)"

definition HasPrefix :: "bytes \<Rightarrow> bytes \<Rightarrow> bool" where
  "HasPrefix s prefix = (length s \<ge> length prefix \<and> take (length prefix) s = prefix)"

text \<open>\<open>it.Seek(prefix)\<close> moves to the first item whose key is not below \<open>prefix\<close>.\<close>

definition it_Seek :: "txn \<Rightarrow> bytes \<Rightarrow> txn" where
  "it_Seek txn prefix = dropWhile (\<lambda>(k, i). k < prefix) txn"

text \<open>
  \<open>proto.Unmarshal\<close> is a library function and its result is not checked by
  \<open>loadMeta\<close>: what it leaves in the store message (given the message before) and in a
  fresh region message are parameters.
\<close>

record proto =
  Unmarshal_Store :: "bytes \<Rightarrow> Store \<Rightarrow> Store"
  Unmarshal_Region :: "bytes \<Rightarrow> Region"

text \<open>
  The loop over the iterator: it ends when the iterator is exhausted or its key does not
  start with the prefix, and returns the error of the first value that cannot be read.
\<close>

fun loadMeta_regions ::
  "proto \<Rightarrow> bytes \<Rightarrow> txn \<Rightarrow> (u64 \<rightharpoonup> Region) \<Rightarrow> db_error option \<times> (u64 \<rightharpoonup> Region)" where
  "loadMeta_regions pb prefix [] rs = (None, rs)"
| "loadMeta_regions pb prefix ((k, i) # it) rs =
     (if \<not> HasPrefix k prefix then (None, rs)
      else (case i of
              Inl err \<Rightarrow> (Some err, rs)
            | Inr v \<Rightarrow> (let r = Unmarshal_Region pb v
                       in loadMeta_regions pb prefix it (rs(r_Id r \<mapsto> r)))))"

text \<open>The function given to \<open>db.View\<close>: its error and the node it leaves.\<close>

definition loadMeta_view :: "proto \<Rightarrow> txn \<Rightarrow> Node \<Rightarrow> db_error option \<times> Node" where
  "loadMeta_view pb txn n =
     (case txn_Get txn InternalStoreMetaKey of
        Inl err \<Rightarrow> (Some err, n)
      | Inr i \<Rightarrow>
          (case i of
             Inl err \<Rightarrow> (Some err, n)
           | Inr val \<Rightarrow>
               (let n1 = n\<lparr>storeMeta := Unmarshal_Store pb val (storeMeta n)\<rparr>;
                    prefix = InternalRegionMetaPrefix
                in (case loadMeta_regions pb prefix (it_Seek txn prefix) (regions n1) of
                      (err, rs) \<Rightarrow> (err, n1\<lparr>regions := rs\<rparr>)))))"

text \<open>\<open>loadMeta\<close>: \<open>log.Fatal\<close> on an error other than \<open>ErrKeyNotFound\<close> ends the process.\<close>

datatype fatal = Fatal db_error

definition loadMeta :: "proto \<Rightarrow> txn \<Rightarrow> Node \<Rightarrow> fatal + Node" where
  "loadMeta pb txn n =
     (case loadMeta_view pb txn n of
        (Some err, n') \<Rightarrow> (if err \<noteq> ErrKeyNotFound then Inl (Fatal err) else Inr n')
      | (None, n') \<Rightarrow> Inr n')"

section \<open>Measures and example inputs\<close>

text \<open>The number of fields of a key error that are set (differ from their zero value).\<close>

definition fields_set :: "KeyError \<Rightarrow> nat" where
  "fields_set ke = (if Locked ke \<noteq> None then 1 else 0) + (if Retryable ke \<noteq> [] then 1 else 0)
                     + (if Abort ke \<noteq> [] then 1 else 0)"

text \<open>
  A store for the examples. Its content is the number of write operations it has
  executed. Prewrite reports a write conflict on the key \<open>k2\<close> and succeeds on every other
  key; the reads find a lock on \<open>k2\<close> and the value \<open>v\<close> under every other key.
\<close>

definition example_conflict :: error where
  "example_conflict = ErrRetryableVal ''write conflict'' ''retryable: write conflict''"

definition example_locked :: error where
  "example_locked =
     ErrLockedPtr \<lparr>el_Key = \<lparr>encoded = ''zk2'', Raw = ''k2''\<rparr>, el_Primary = ''k1'',
                   el_StartTS = 10, el_TTL = 1000\<rparr> ''key is locked''"

definition example_read :: "bytes \<Rightarrow> Pair" where
  "example_read k =
     (if k = ''k2'' then \<lparr>p_Key = k, p_Value = [], p_Err = Some example_locked\<rparr>
      else \<lparr>p_Key = k, p_Value = ''v'', p_Err = None\<rparr>)"

definition example_store :: "nat MVCCStore" where
  "example_store =
     \<lparr>mvcc_Get = (\<lambda>k ver db. (p_Value (example_read k), p_Err (example_read k))),
      mvcc_Scan = (\<lambda>start end limit ver db. [example_read start]),
      mvcc_BatchGet = (\<lambda>ks ver db. map example_read ks),
      mvcc_Prewrite = (\<lambda>muts primary start ttl db.
         (map (\<lambda>m. if m_Key m = ''k2'' then Some example_conflict else None) muts, Suc db)),
      mvcc_Commit = (\<lambda>ks start commit db. (None, Suc db))\<rparr>"

definition example_server :: "nat Server" where
  "example_server = \<lparr>mvccStore = example_store, svr_startKey = [], svr_endKey = []\<rparr>"

definition put :: "bytes \<Rightarrow> bytes \<Rightarrow> Mutation" where
  "put k v = \<lparr>m_Op = Op_Put, m_Key = k, m_Value = v\<rparr>"

text \<open>A prewrite request whose one value alone has 6 MiB.\<close>

definition oversized_request :: PrewriteRequest where
  "oversized_request =
     \<lparr>pw_Mutations = [put ''k1'' (replicate 6291456 (CHR ''v''))], pw_PrimaryLock = ''k1'',
      pw_StartVersion = 10, pw_LockTtl = 1000\<rparr>"

text \<open>A prewrite request of two mutations, the second on the key with the conflict.\<close>

definition two_key_request :: PrewriteRequest where
  "two_key_request =
     \<lparr>pw_Mutations = [put ''k1'' ''v1'', put ''k2'' ''v2''], pw_PrimaryLock = ''k1'',
      pw_StartVersion = 10, pw_LockTtl = 1000\<rparr>"

text \<open>The events of a run that are calls of \<open>router.send\<close>.\<close>

fun is_router_send :: "event \<Rightarrow> bool" where
  "is_router_send (Call_router_send regionId msg) = True"
| "is_router_send e = False"

text \<open>Tasks, a region, key functions and a split-check runner for the examples.\<close>

definition stop_task :: task where
  "stop_task = \<lparr>tp = taskTypeStop, data = NilData\<rparr>"

definition gc_task :: "nat \<Rightarrow> task" where
  "gc_task n = \<lparr>tp = taskTypeRaftLogGC, data = OtherData n\<rparr>"

definition example_region :: Region where
  "example_region =
     \<lparr>r_Id = 7, r_StartKey = ''a'', r_EndKey = ''m'',
      r_RegionEpoch = Some \<lparr>ConfVer = 1, Version = 3\<rparr>, r_Peers = []\<rparr>"

definition split_task :: "bool \<Rightarrow> CheckPolicy \<Rightarrow> task" where
  "split_task auto pol =
     \<lparr>tp = taskTypeSplitCheck,
      data = SplitCheckTaskPtr \<lparr>sc_region = Some example_region, sc_autoSplit = auto,
                                sc_policy = pol\<rparr>\<rparr>"

text \<open>Keys are stored with the prefix \<open>z\<close>; the origin of a stored key is the key without it.\<close>

definition example_keys :: keys_pkg where
  "example_keys =
     \<lparr>EncStartKey = (\<lambda>region. CHR ''z'' # r_StartKey region),
      EncEndKey = (\<lambda>region. CHR ''z'' # r_EndKey region),
      OriginKey = drop 1\<rparr>"

text \<open>
  A runner whose host skips the regions that are not checked for an automatic split, keeps
  the policy of the task and returns the given estimate, and whose router returns the
  given result.
\<close>

definition example_runner :: "bytes list \<times> error option \<Rightarrow> error option \<Rightarrow> splitCheckRunner" where
  "example_runner estimate sent =
     \<lparr>newSplitCheckerHost = (\<lambda>region auto pol.
         \<lparr>skip = \<not> auto, policy = pol, approximateSplitKeys = (\<lambda>region. estimate)\<rparr>),
      router_send = (\<lambda>regionId msg. sent)\<rparr>"

text \<open>The number that a sequence of decimal digits writes.\<close>

definition decimal_value :: "string \<Rightarrow> nat" where
  "decimal_value ds = foldl (\<lambda>a c. 10 * a + (of_char c - 48)) 0 ds"

text \<open>
  A database for the examples: the store under its key, two regions under their keys, and
  two keys of users around them. The messages are decoded from the length of the value.
\<close>

definition example_proto :: proto where
  "example_proto =
     \<lparr>Unmarshal_Store = (\<lambda>v old. \<lparr>store_Id = of_nat (length v), store_Address = v\<rparr>),
      Unmarshal_Region = (\<lambda>v. \<lparr>r_Id = of_nat (length v), r_StartKey = v, r_EndKey = [],
                                 r_RegionEpoch = None, r_Peers = []\<rparr>)\<rparr>"

definition example_txn :: txn where
  "example_txn =
     [(''a'', Inr ''x''),
      (InternalRegionMetaKey 1, Inr ''r''),
      (InternalRegionMetaKey 2, Inr ''rr''),
      (InternalStoreMetaKey, Inr ''127.0.0.1:9191''),
      (''z'', Inr ''y'')]"

definition empty_node :: Node where
  "empty_node = \<lparr>storeMeta = \<lparr>store_Id = 0, store_Address = []\<rparr>, regions = Map.empty\<rparr>"

section \<open>Properties of tikv/server.go\<close>

lemma Cause_not_causer: "Cause err \<noteq> Some (ErrCauser msg c)"
  by (induction err rule: Cause.induct) simp_all

lemma convertToKeyErrors_loop_eq:
  "convertToKeyErrors_loop errs keyErrors =
     keyErrors @ map (\<lambda>e. convertToKeyError (the e)) (filter (\<lambda>e. e \<noteq> None) errs)"
  by (induction errs keyErrors rule: convertToKeyErrors_loop.induct) simp_all

lemma convertToPbPairs_loop_eq:
  "convertToPbPairs_loop pairs kvPairs =
     kvPairs @ map (\<lambda>p. case p_Err p of
                           None \<Rightarrow> KvPair_zero\<lparr>kv_Key := p_Key p, kv_Value := p_Value p\<rparr>
                         | Some e \<Rightarrow> KvPair_zero\<lparr>kv_Error := Some (convertToKeyError e)\<rparr>) pairs"
  by (induction pairs arbitrary: kvPairs) (simp_all add: Let_def)

lemma checkKeyInRegion_all: "list_all (checkKeyInRegion svr) ks"
  by (induction ks) (simp_all add: checkKeyInRegion_def)

lemma checkKeyInRegion_all_mutations: "list_all (\<lambda>m. checkKeyInRegion svr (m_Key m)) ms"
  by (induction ms) (simp_all add: checkKeyInRegion_def)

lemma KvPrewrite_eq:
  "KvPrewrite svr req db =
     Inr (\<lparr>pw_RegionError = None,
           pw_Errors = convertToKeyErrors (fst (mvcc_Prewrite (mvccStore svr) (pw_Mutations req)
                         (pw_PrimaryLock req) (pw_StartVersion req) (pw_LockTtl req) db))\<rparr>,
          snd (mvcc_Prewrite (mvccStore svr) (pw_Mutations req) (pw_PrimaryLock req)
                 (pw_StartVersion req) (pw_LockTtl req) db))"
  by (simp add: KvPrewrite_def checkKeyInRegion_all_mutations split: prod.split)

text \<open>
  C1 (the code does not do what the claim says). A prewrite request with a value of 6 MiB
  is one that \<open>checkRequest\<close> rejects with RaftEntryTooLarge, but \<open>KvPrewrite\<close> does not
  call \<open>checkRequest\<close>: on this request it calls Prewrite of the store (the store has
  executed one write afterwards) and answers without a region error.
\<close>

theorem C1_oversized_prewrite_reaches_store:
  "checkRequest (int (length (m_Value (hd (pw_Mutations oversized_request)))))
     = Some RaftEntryTooLarge
   \<and> KvPrewrite example_server oversized_request 0
     = Inr (\<lparr>pw_RegionError = None, pw_Errors = []\<rparr>, 1)"
  by (simp add: KvPrewrite_eq oversized_request_def put_def checkRequest_def
      checkRequestContext_def checkRequestSize_def requestMaxSize_def example_server_def
      example_store_def convertToKeyErrors_def)

text \<open>
  C2 (as the claim states it, false). The example store reports a conflict for the second
  of two mutations: the response carries one error, not two slots, and the error of the
  second mutation stands at the first position.
\<close>

theorem C2_two_mutations_one_slot:
  "length (pw_Mutations two_key_request) = 2
   \<and> length (pw_Errors (fst (projr (KvPrewrite example_server two_key_request 0))))
       \<noteq> length (pw_Mutations two_key_request)
   \<and> KvPrewrite example_server two_key_request 0
     = Inr (\<lparr>pw_RegionError = None,
             pw_Errors = [\<lparr>Locked = None, Retryable = ''retryable: write conflict'',
                           Abort = []\<rparr>]\<rparr>, 1)"
  by (simp add: KvPrewrite_eq two_key_request_def put_def example_server_def
      example_store_def convertToKeyErrors_def example_conflict_def convertToKeyError_def
      KeyError_zero_def)

text \<open>
  C2 (amended). The errors of a prewrite response are the conversions of the errors that
  Prewrite of the store returned and that are not nil, in their order; a mutation that
  succeeded has no slot. There are as many entries as failed mutations, never more than
  errors returned.
\<close>

theorem C2_prewrite_errors_are_the_failures:
  "KvPrewrite svr req db =
     Inr (\<lparr>pw_RegionError = None,
           pw_Errors = map (\<lambda>e. convertToKeyError (the e))
                         (filter (\<lambda>e. e \<noteq> None)
                            (fst (mvcc_Prewrite (mvccStore svr) (pw_Mutations req)
                                    (pw_PrimaryLock req) (pw_StartVersion req)
                                    (pw_LockTtl req) db)))\<rparr>,
          snd (mvcc_Prewrite (mvccStore svr) (pw_Mutations req) (pw_PrimaryLock req)
                 (pw_StartVersion req) (pw_LockTtl req) db))
   \<and> length (convertToKeyErrors errs) = length (filter (\<lambda>e. e \<noteq> None) errs)
   \<and> length (convertToKeyErrors errs) \<le> length errs"
  by (simp add: KvPrewrite_eq convertToKeyErrors_def convertToKeyErrors_loop_eq)

theorem C2_prewrite_errors_are_the_failures_witness:
  "KvPrewrite example_server two_key_request 0
     = Inr (\<lparr>pw_RegionError = None, pw_Errors = [convertToKeyError example_conflict]\<rparr>, 1)
   \<and> length (convertToKeyErrors [None, Some example_conflict, None]) = 1"
  using C2_prewrite_errors_are_the_failures
          [of example_server two_key_request 0 "[None, Some example_conflict, None]"]
  by (simp add: two_key_request_def put_def example_server_def example_store_def)

text \<open>
  C6. \<open>convertToKeyError\<close> takes exactly one of three branches, decided by the cause of
  the error: a cause of type \<open>*ErrLocked\<close> gives a key error whose only field is
  \<open>Locked\<close>, with the raw key, the primary, the start timestamp and the TTL of the lock;
  a cause of type \<open>ErrRetryable\<close> gives one whose only field is \<open>Retryable\<close>; any other
  error gives one whose only field is \<open>Abort\<close>, with the text of the error. At most one of
  the three fields is set.
\<close>

theorem C6_convertToKeyError_three_kinds:
  "(case Cause err of
      Some (ErrLockedPtr locked msg) \<Rightarrow>
        convertToKeyError err =
          \<lparr>Locked = Some \<lparr>li_PrimaryLock = el_Primary locked, li_LockVersion = el_StartTS locked,
                           li_Key = Raw (el_Key locked), li_LockTtl = el_TTL locked\<rparr>,
           Retryable = [], Abort = []\<rparr>
    | Some (ErrRetryableVal r msg) \<Rightarrow>
        convertToKeyError err = \<lparr>Locked = None, Retryable = msg, Abort = []\<rparr>
    | Some (ErrOpaque msg) \<Rightarrow>
        convertToKeyError err = \<lparr>Locked = None, Retryable = [], Abort = Error err\<rparr>
    | Some (ErrCauser msg c) \<Rightarrow> False
    | None \<Rightarrow>
        convertToKeyError err = \<lparr>Locked = None, Retryable = [], Abort = Error err\<rparr>)
   \<and> fields_set (convertToKeyError err) \<le> 1"
  using Cause_not_causer [of err]
  by (auto simp: convertToKeyError_def KeyError_zero_def fields_set_def
      split: option.splits error.splits)

theorem C6_convertToKeyError_three_kinds_witness:
  "convertToKeyError (ErrCauser ''prewrite failed: key is locked'' (Some example_locked))
     = \<lparr>Locked = Some \<lparr>li_PrimaryLock = ''k1'', li_LockVersion = 10, li_Key = ''k2'',
                        li_LockTtl = 1000\<rparr>,
        Retryable = [], Abort = []\<rparr>
   \<and> fields_set (convertToKeyError
                   (ErrCauser ''prewrite failed: key is locked'' (Some example_locked))) \<le> 1"
  using C6_convertToKeyError_three_kinds
          [of "ErrCauser ''prewrite failed: key is locked'' (Some example_locked)"]
  by (simp add: example_locked_def fields_set_def)

text \<open>
  C7. \<open>convertToPbPairs\<close> returns one pair for each pair it is given, in the same order.
  For a pair without error the result carries the key and the value and no error; for a
  pair with an error it carries the converted error and neither key nor value. No
  result has both a value and an error.
\<close>

theorem C7_convertToPbPairs_value_or_error:
  "length (convertToPbPairs pairs) = length pairs
   \<and> (\<forall>i < length pairs.
        (case p_Err (pairs ! i) of
           None \<Rightarrow> convertToPbPairs pairs ! i =
                    \<lparr>kv_Error = None, kv_Key = p_Key (pairs ! i), kv_Value = p_Value (pairs ! i)\<rparr>
         | Some e \<Rightarrow> convertToPbPairs pairs ! i =
                    \<lparr>kv_Error = Some (convertToKeyError e), kv_Key = [], kv_Value = []\<rparr>)
        \<and> \<not> (kv_Value (convertToPbPairs pairs ! i) \<noteq> []
              \<and> kv_Error (convertToPbPairs pairs ! i) \<noteq> None))"
  by (auto simp: convertToPbPairs_def convertToPbPairs_loop_eq KvPair_zero_def
      split: option.splits)

theorem C7_convertToPbPairs_value_or_error_witness:
  "convertToPbPairs (map example_read [''k1'', ''k2''])
     = [\<lparr>kv_Error = None, kv_Key = ''k1'', kv_Value = ''v''\<rparr>,
        \<lparr>kv_Error = Some (convertToKeyError example_locked), kv_Key = [], kv_Value = []\<rparr>]"
proof -
  let ?ps = "map example_read [''k1'', ''k2'']"
  note th = C7_convertToPbPairs_value_or_error [of ?ps]
  have len: "length (convertToPbPairs ?ps) = 2"
    using th by simp
  have i0: "convertToPbPairs ?ps ! 0 = \<lparr>kv_Error = None, kv_Key = ''k1'', kv_Value = ''v''\<rparr>"
    using th [THEN conjunct2, THEN spec, of 0] by (simp add: example_read_def)
  have i1: "convertToPbPairs ?ps ! 1
              = \<lparr>kv_Error = Some (convertToKeyError example_locked), kv_Key = [], kv_Value = []\<rparr>"
    using th [THEN conjunct2, THEN spec, of 1] by (simp add: example_read_def)
  have "convertToPbPairs ?ps = [convertToPbPairs ?ps ! 0, convertToPbPairs ?ps ! 1]"
    using len by (cases "convertToPbPairs ?ps"; cases "tl (convertToPbPairs ?ps)") auto
  then show ?thesis
    using i0 i1 by simp
qed

text \<open>
  C9. \<open>checkKeyInRegion\<close> is true of every key, so no handler takes the branch that
  panics for a key outside the region: each of the five handlers returns a response.
\<close>

theorem C9_no_key_is_outside_the_region:
  "checkKeyInRegion svr key
   \<and> \<not> isl (KvGet svr getReq db) \<and> \<not> isl (KvScan svr scanReq db)
   \<and> \<not> isl (KvPrewrite svr prewriteReq db) \<and> \<not> isl (KvCommit svr commitReq db)
   \<and> \<not> isl (KvBatchGet svr batchGetReq db)"
  by (simp add: checkKeyInRegion_def KvGet_def KvScan_def KvPrewrite_eq KvCommit_def
      KvBatchGet_def checkKeyInRegion_all Let_def split: prod.split option.split)

theorem C9_no_key_is_outside_the_region_witness:
  "checkKeyInRegion example_server ''zzz''
   \<and> KvGet example_server \<lparr>get_Key = ''zzz'', get_Version = 11\<rparr> 0
     = Inr (\<lparr>get_RegionError = None, get_Error = None, get_Value = ''v''\<rparr>, 0)"
  using C9_no_key_is_outside_the_region [of example_server "''zzz''"]
  by (simp add: KvGet_def example_server_def example_store_def example_read_def)

section \<open>Properties of the worker loop\<close>

lemma worker_loop_eq:
  "worker_loop run queue executed s wg =
     \<lparr>status = (if list_ex (\<lambda>t. tp t = taskTypeStop) queue then Exited else Waiting),
      ran = executed @ takeWhile (\<lambda>t. tp t \<noteq> taskTypeStop) queue,
      runner_state = foldl (\<lambda>s t. run t s) s (takeWhile (\<lambda>t. tp t \<noteq> taskTypeStop) queue),
      wg_counter = (if list_ex (\<lambda>t. tp t = taskTypeStop) queue then wg - 1 else wg),
      receiver = (if list_ex (\<lambda>t. tp t = taskTypeStop) queue
                  then tl (dropWhile (\<lambda>t. tp t \<noteq> taskTypeStop) queue) else [])\<rparr>"
  by (induction queue arbitrary: executed s) simp_all

text \<open>
  C3. Started on the sequence of tasks sent to the worker, the consumer gives to
  \<open>runner.run\<close> the tasks before the first stop task, each once and in the order in which
  they were sent (the runner's state is the fold of \<open>run\<close> over them). If the sequence
  has a stop task the loop has exited, the wait group is back at its count from before
  \<open>start\<close>, and the tasks sent after the stop task are still in the channel, not run.
  Otherwise the consumer waits for the next task and the wait group still counts it.
\<close>

theorem C3_worker_runs_fifo_until_stop:
  "ran (worker_start run queue s wg) = takeWhile (\<lambda>t. tp t \<noteq> taskTypeStop) queue
   \<and> runner_state (worker_start run queue s wg)
       = foldl (\<lambda>s t. run t s) s (takeWhile (\<lambda>t. tp t \<noteq> taskTypeStop) queue)
   \<and> (if list_ex (\<lambda>t. tp t = taskTypeStop) queue
       then status (worker_start run queue s wg) = Exited
            \<and> wg_counter (worker_start run queue s wg) = wg
            \<and> receiver (worker_start run queue s wg)
                = tl (dropWhile (\<lambda>t. tp t \<noteq> taskTypeStop) queue)
       else status (worker_start run queue s wg) = Waiting
            \<and> wg_counter (worker_start run queue s wg) = wg + 1
            \<and> receiver (worker_start run queue s wg) = [])"
  by (simp add: worker_start_def worker_loop_eq)

theorem C3_worker_runs_fifo_until_stop_witness:
  "worker_start (\<lambda>t log. log @ [data t]) [gc_task 1, gc_task 2, stop_task, gc_task 3] [] 0
     = \<lparr>status = Exited, ran = [gc_task 1, gc_task 2],
        runner_state = [OtherData 1, OtherData 2], wg_counter = 0,
        receiver = [gc_task 3]\<rparr>"
  using C3_worker_runs_fifo_until_stop
          [of "\<lambda>t log. log @ [data t]" "[gc_task 1, gc_task 2, stop_task, gc_task 3]" "[]" 0]
  by (simp add: gc_task_def stop_task_def taskTypeStop_def taskTypeRaftLogGC_def
      worker_start_def)

text \<open>
  C10. No task given to \<open>runner.run\<close> is a stop task.
\<close>

theorem C10_stop_task_never_run:
  "\<forall>t \<in> set (ran (worker_start run queue s wg)). tp t \<noteq> taskTypeStop"
  by (auto simp: worker_start_def worker_loop_eq dest: set_takeWhileD)

theorem C10_stop_task_never_run_witness:
  "gc_task 1 \<in> set (ran (worker_start (\<lambda>t n. Suc n) [gc_task 1, stop_task, gc_task 3] 0 0))
   \<and> tp (gc_task 1) \<noteq> taskTypeStop
   \<and> stop_task \<notin> set (ran (worker_start (\<lambda>t n. Suc n) [gc_task 1, stop_task, gc_task 3] 0 0))"
  using C10_stop_task_never_run [of "\<lambda>t n. Suc n" "[gc_task 1, stop_task, gc_task 3]" 0 0]
  by (auto simp: gc_task_def stop_task_def taskTypeStop_def taskTypeRaftLogGC_def
      worker_start_def)

section \<open>Properties of the split-check runner\<close>

lemma policies_differ: "CheckPolicy_SCAN \<noteq> CheckPolicy_APPROXIMATE"
  by (simp add: CheckPolicy_SCAN_def CheckPolicy_APPROXIMATE_def)

text \<open>The switch gives no message to the router.\<close>

lemma run_switch_no_send:
  "filter is_router_send (fst (run_switch kp r host region startKey endKey)) = []"
  by (simp add: run_switch_def scanSplitKeys_def split: prod.split option.split)

text \<open>
  Keys come out of the switch only from an estimate that succeeded: they are the keys of
  the estimate, each through \<open>OriginKey\<close>.
\<close>

lemma run_switch_keys:
  assumes "run_switch kp r host region startKey endKey = (evs, Some keys)" and "keys \<noteq> []"
  shows "policy host = CheckPolicy_APPROXIMATE
         \<and> snd (approximateSplitKeys host region) = None
         \<and> keys = map (OriginKey kp) (fst (approximateSplitKeys host region))
         \<and> evs = [Call_approximateSplitKeys region]"
  using assms
  by (auto simp: run_switch_def scanSplitKeys_def split: if_splits prod.splits option.splits)

lemma run_well_formed:
  assumes "data t = SplitCheckTaskPtr sp" and "sc_region sp = Some region"
    and "host = newSplitCheckerHost r region (sc_autoSplit sp) (sc_policy sp)"
  shows "splitCheckRunner_run kp r t =
           Inr (Debugf_executing (r_Id region) (EncStartKey kp region) (EncEndKey kp region)
                # (if skip host then [Debugf_skip (r_Id region)]
                   else (case run_switch kp r host region (EncStartKey kp region)
                                 (EncEndKey kp region) of
                           (evs, None) \<Rightarrow> evs
                         | (evs, Some keys) \<Rightarrow> evs @ run_send r region keys)))"
  using assms
  by (simp add: splitCheckRunner_run_def Let_def split: prod.split option.split)

text \<open>
  C4. Take a split-check task with its region, the host made for it, and what the switch
  of \<open>run\<close> leaves. If the host does not skip and the keys found are not empty, they are
  the keys of the estimate stripped by \<open>OriginKey\<close>, and \<open>run\<close> gives the router exactly
  one message: a split-region message for the id of the region, with the epoch of the
  region and these keys; when the router returns an error, one warning follows and
  nothing is sent again. In every other case \<open>run\<close> gives the router no message.
\<close>

theorem C4_keys_found_are_sent_once:
  assumes "data t = SplitCheckTaskPtr sp" and "sc_region sp = Some region"
    and "host = newSplitCheckerHost r region (sc_autoSplit sp) (sc_policy sp)"
    and "run_switch kp r host region (EncStartKey kp region) (EncEndKey kp region) = (evs, found)"
    and "msg = \<lparr>msg_Type = MsgTypeSplitRegion, msg_RegionID = r_Id region,
                 msg_Data = \<lparr>msr_RegionEpoch = r_RegionEpoch region,
                             msr_SplitKeys = map (OriginKey kp)
                                               (fst (approximateSplitKeys host region)),
                             msr_Callback = EmptyCallback\<rparr>\<rparr>"
  shows "(if \<not> skip host \<and> found \<noteq> None \<and> found \<noteq> Some []
          then found = Some (map (OriginKey kp) (fst (approximateSplitKeys host region)))
               \<and> splitCheckRunner_run kp r t =
                   Inr ([Debugf_executing (r_Id region) (EncStartKey kp region)
                           (EncEndKey kp region),
                         Call_approximateSplitKeys region,
                         Call_router_send (r_Id region) msg]
                        @ (case router_send r (r_Id region) msg of
                             None \<Rightarrow> []
                           | Some err \<Rightarrow> [Warnf_send_failed (r_Id region) err]))
          else (\<exists>out. splitCheckRunner_run kp r t = Inr out \<and> filter is_router_send out = []))"
proof (cases "\<not> skip host \<and> found \<noteq> None \<and> found \<noteq> Some []")
  case True
  then obtain keys where found: "found = Some keys" and keys: "keys \<noteq> []"
    by auto
  have sw: "run_switch kp r host region (EncStartKey kp region) (EncEndKey kp region)
              = (evs, Some keys)"
    using assms(4) found by simp
  note k = run_switch_keys [OF sw keys]
  have "run_send r region keys =
          Call_router_send (r_Id region) msg
          # (case router_send r (r_Id region) msg of
               None \<Rightarrow> [] | Some err \<Rightarrow> [Warnf_send_failed (r_Id region) err])"
    using k keys assms(5) by (simp add: run_send_def Let_def split: option.split)
  then show ?thesis
    using True k found sw by (simp add: run_well_formed [OF assms(1,2,3)])
next
  case False
  have "filter is_router_send evs = []"
    using run_switch_no_send [of kp r host region "EncStartKey kp region" "EncEndKey kp region"]
      assms(4) by simp
  then show ?thesis
    using False assms(4)
    by (auto simp: run_well_formed [OF assms(1,2,3)] run_send_def split: option.splits)
qed

theorem C4_keys_found_are_sent_once_witness:
  "splitCheckRunner_run example_keys
     (example_runner ([''zc'', ''zf''], None) (Some (ErrOpaque ''mailbox is full'')))
     (split_task True CheckPolicy_APPROXIMATE)
   = Inr [Debugf_executing 7 ''za'' ''zm'',
          Call_approximateSplitKeys example_region,
          Call_router_send 7
            \<lparr>msg_Type = MsgTypeSplitRegion, msg_RegionID = 7,
             msg_Data = \<lparr>msr_RegionEpoch = Some \<lparr>ConfVer = 1, Version = 3\<rparr>,
                         msr_SplitKeys = [''c'', ''f''], msr_Callback = EmptyCallback\<rparr>\<rparr>,
          Warnf_send_failed 7 (ErrOpaque ''mailbox is full'')]"
proof -
  let ?r = "example_runner ([''zc'', ''zf''], None) (Some (ErrOpaque ''mailbox is full''))"
  let ?sp = "\<lparr>sc_region = Some example_region, sc_autoSplit = True,
              sc_policy = CheckPolicy_APPROXIMATE\<rparr>"
  have h1: "data (split_task True CheckPolicy_APPROXIMATE) = SplitCheckTaskPtr ?sp"
    by (simp add: split_task_def)
  have h2: "sc_region ?sp = Some example_region"
    by simp
  have h4: "run_switch example_keys ?r
              (newSplitCheckerHost ?r example_region (sc_autoSplit ?sp) (sc_policy ?sp))
              example_region (EncStartKey example_keys example_region)
              (EncEndKey example_keys example_region)
            = ([Call_approximateSplitKeys example_region], Some [''c'', ''f''])"
    by (simp add: run_switch_def example_runner_def example_keys_def policies_differ [symmetric])
  show ?thesis
    using C4_keys_found_are_sent_once [OF h1 h2 refl h4 refl]
    by (simp add: example_runner_def example_keys_def example_region_def)
qed

text \<open>
  C5. Take a split-check task with its region and the host made for it. If the host does
  not skip, its policy is APPROXIMATE and the estimate returns an error, \<open>run\<close> logs the
  error and calls \<open>scanSplitKeys\<close> on the region with the same encoded start and end
  keys; the scan of the source finds no keys, so nothing is sent. If the host skips,
  \<open>run\<close> only logs: neither the estimate nor the scan is called and nothing is sent.
\<close>

theorem C5_failed_estimate_falls_back_to_scan:
  assumes "data t = SplitCheckTaskPtr sp" and "sc_region sp = Some region"
    and "host = newSplitCheckerHost r region (sc_autoSplit sp) (sc_policy sp)"
  shows "(\<not> skip host \<and> policy host = CheckPolicy_APPROXIMATE
            \<and> snd (approximateSplitKeys host region) = Some err
          \<longrightarrow> splitCheckRunner_run kp r t =
                Inr [Debugf_executing (r_Id region) (EncStartKey kp region) (EncEndKey kp region),
                     Call_approximateSplitKeys region,
                     Errorf_approximate_failed (r_Id region) err,
                     Call_scanSplitKeys region (EncStartKey kp region) (EncEndKey kp region),
                     Debugf_no_need_to_send (r_Id region)])
         \<and> (skip host
            \<longrightarrow> splitCheckRunner_run kp r t =
                  Inr [Debugf_executing (r_Id region) (EncStartKey kp region)
                         (EncEndKey kp region),
                       Debugf_skip (r_Id region)])"
  by (auto simp: run_well_formed [OF assms] run_switch_def run_send_def scanSplitKeys_def
      policies_differ [symmetric] split: prod.splits option.splits)

theorem C5_failed_estimate_falls_back_to_scan_witness:
  "splitCheckRunner_run example_keys
     (example_runner ([], Some (ErrOpaque ''no size properties'')) None)
     (split_task True CheckPolicy_APPROXIMATE)
   = Inr [Debugf_executing 7 ''za'' ''zm'',
          Call_approximateSplitKeys example_region,
          Errorf_approximate_failed 7 (ErrOpaque ''no size properties''),
          Call_scanSplitKeys example_region ''za'' ''zm'',
          Debugf_no_need_to_send 7]
   \<and> splitCheckRunner_run example_keys
       (example_runner ([], Some (ErrOpaque ''no size properties'')) None)
       (split_task False CheckPolicy_APPROXIMATE)
     = Inr [Debugf_executing 7 ''za'' ''zm'', Debugf_skip 7]"
proof -
  let ?r = "example_runner ([], Some (ErrOpaque ''no size properties'')) None"
  have h1: "data (split_task auto CheckPolicy_APPROXIMATE)
              = SplitCheckTaskPtr \<lparr>sc_region = Some example_region, sc_autoSplit = auto,
                                   sc_policy = CheckPolicy_APPROXIMATE\<rparr>" for auto
    by (simp add: split_task_def)
  have h2: "sc_region \<lparr>sc_region = Some example_region, sc_autoSplit = auto,
                       sc_policy = CheckPolicy_APPROXIMATE\<rparr> = Some example_region" for auto
    by simp
  show ?thesis
    using C5_failed_estimate_falls_back_to_scan
            [OF h1 [of True] h2, where host = "newSplitCheckerHost ?r example_region True
                 CheckPolicy_APPROXIMATE" and r = ?r and kp = example_keys
               and err = "ErrOpaque ''no size properties''"]
          C5_failed_estimate_falls_back_to_scan
            [OF h1 [of False] h2, where host = "newSplitCheckerHost ?r example_region False
                 CheckPolicy_APPROXIMATE" and r = ?r and kp = example_keys
               and err = "ErrOpaque ''no size properties''"]
    by (simp add: example_runner_def example_keys_def example_region_def)
qed

section \<open>Properties of node/main.go\<close>

lemma HasPrefix_iff: "HasPrefix k p \<longleftrightarrow> (\<exists>s. k = p @ s)"
proof
  assume "HasPrefix k p"
  then have "k = p @ drop (length p) k"
    by (metis HasPrefix_def append_take_drop_id)
  then show "\<exists>s. k = p @ s" ..
next
  assume "\<exists>s. k = p @ s"
  then show "HasPrefix k p"
    by (auto simp: HasPrefix_def)
qed

text \<open>In the order of the keys, a key with a prefix is not below the prefix.\<close>

lemma prefix_le_append: "(p :: bytes) \<le> p @ s"
  by (induction p) simp_all

lemma below_prefix_not_HasPrefix: "k < p \<Longrightarrow> \<not> HasPrefix k p"
proof
  assume "k < p" and "HasPrefix k p"
  then obtain s where "k = p @ s"
    by (auto simp: HasPrefix_iff)
  then have "p \<le> k"
    by (simp add: prefix_le_append)
  with \<open>k < p\<close> show False
    by simp
qed

text \<open>A key between the prefix and a key with the prefix has the prefix.\<close>

lemma between_has_prefix: "(p :: bytes) \<le> k \<Longrightarrow> k \<le> p @ s \<Longrightarrow> \<exists>s'. k = p @ s'"
proof (induction p arbitrary: k)
  case Nil
  then show ?case by simp
next
  case (Cons a p)
  then obtain b k' where k: "k = b # k'"
    by (cases k) auto
  with Cons.prems have "a = b" and "p \<le> k'" and "k' \<le> p @ s"
    by auto
  with Cons.IH [of k'] k show ?case
    by auto
qed

lemma past_prefix_block:
  "p \<le> k \<Longrightarrow> \<not> HasPrefix k p \<Longrightarrow> k \<le> k' \<Longrightarrow> \<not> HasPrefix k' p"
  using between_has_prefix [of p k] by (auto simp: HasPrefix_iff)

text \<open>
  In a transaction in key order, the items from the position of \<open>Seek\<close> on, as long as
  their key has the prefix, are all the items whose key has the prefix.
\<close>

lemma takeWhile_prefix_filter:
  assumes "sorted (map fst xs)" and "\<forall>x \<in> set xs. p \<le> fst x"
  shows "takeWhile (\<lambda>(k, i). HasPrefix k p) xs = filter (\<lambda>(k, i). HasPrefix k p) xs"
  using assms
proof (induction xs)
  case Nil
  then show ?case by simp
next
  case (Cons x xs)
  obtain k i where x: "x = (k, i)" by (cases x)
  show ?case
  proof (cases "HasPrefix k p")
    case True
    with Cons x show ?thesis by simp
  next
    case False
    have "\<not> HasPrefix k' p" if "(k', i') \<in> set xs" for k' i'
    proof -
      have "k \<le> k'" using Cons.prems(1) x that by force
      moreover have "p \<le> k" using Cons.prems(2) x by simp
      ultimately show ?thesis using False past_prefix_block by blast
    qed
    then have "filter (\<lambda>(k, i). HasPrefix k p) xs = []"
      by (auto simp: filter_empty_conv)
    with False x show ?thesis by simp
  qed
qed

lemma seek_prefix_filter:
  assumes "sorted (map fst xs)"
  shows "takeWhile (\<lambda>(k, i). HasPrefix k p) (it_Seek xs p) = filter (\<lambda>(k, i). HasPrefix k p) xs"
  using assms
proof (induction xs)
  case Nil
  then show ?case by (simp add: it_Seek_def)
next
  case (Cons x xs)
  obtain k i where x: "x = (k, i)" by (cases x)
  show ?case
  proof (cases "k < p")
    case True
    with Cons x below_prefix_not_HasPrefix [of k p] show ?thesis
      by (simp add: it_Seek_def)
  next
    case False
    then have "\<forall>y \<in> set (x # xs). p \<le> fst y"
      using Cons.prems x by force
    with False x takeWhile_prefix_filter [OF Cons.prems, of p] show ?thesis
      by (simp add: it_Seek_def)
  qed
qed

text \<open>The loop stops at the first key without the prefix.\<close>

lemma loadMeta_regions_takeWhile:
  "loadMeta_regions pb p xs rs = loadMeta_regions pb p (takeWhile (\<lambda>(k, i). HasPrefix k p) xs) rs"
  by (induction xs arbitrary: rs) (auto simp: Let_def split: sum.split)

text \<open>On items that all have the prefix and a value that can be read, the loop puts every
  region it decodes into the map under the id of the region.\<close>

lemma loadMeta_regions_readable:
  assumes "\<forall>(k, v) \<in> set stored. HasPrefix k p"
  shows "loadMeta_regions pb p (map (\<lambda>(k, v). (k, Inr v)) stored) rs =
           (None, foldl (\<lambda>m (k, v). m(r_Id (Unmarshal_Region pb v) \<mapsto> Unmarshal_Region pb v))
                    rs stored)"
  using assms by (induction stored arbitrary: rs) (auto simp: Let_def)

lemma digit_value: "d < 10 \<Longrightarrow> of_char (digit d) = 48 + d"
proof -
  assume "d < 10"
  then have "d = 0 \<or> d = 1 \<or> d = 2 \<or> d = 3 \<or> d = 4 \<or> d = 5 \<or> d = 6 \<or> d = 7
               \<or> d = 8 \<or> d = 9"
    by arith
  then show ?thesis by (auto simp: digit_def)
qed

text \<open>\<open>FormatUint10\<close> writes its argument in decimal.\<close>

lemma decimal_value_FormatUint10: "decimal_value (FormatUint10 n) = n"
proof (induction n rule: FormatUint10.induct)
  case (1 n)
  show ?case
  proof (cases "n < 10")
    case True
    then show ?thesis
      by (simp add: FormatUint10.simps [of n] decimal_value_def digit_value)
  next
    case False
    with 1 have "decimal_value (FormatUint10 (n div 10)) = n div 10"
      by simp
    with False show ?thesis
      by (simp add: FormatUint10.simps [of n] decimal_value_def digit_value)
  qed
qed

lemma InternalRegionMetaKey_HasPrefix:
  "HasPrefix (InternalRegionMetaKey regionId) InternalRegionMetaPrefix"
  by (simp add: HasPrefix_iff InternalRegionMetaKey_def)

lemma loadMeta_view_loaded:
  assumes "sorted (map fst txn)"
    and "map_of txn InternalStoreMetaKey = Some (Inr val)"
    and "filter (\<lambda>(k, i). HasPrefix k InternalRegionMetaPrefix) txn
           = map (\<lambda>(k, v). (k, Inr v)) stored"
  shows "loadMeta_view pb txn n =
           (None, \<lparr>storeMeta = Unmarshal_Store pb val (storeMeta n),
                   regions = foldl (\<lambda>m (k, v). m(r_Id (Unmarshal_Region pb v)
                                                    \<mapsto> Unmarshal_Region pb v))
                               (regions n) stored\<rparr>)"
proof -
  let ?p = InternalRegionMetaPrefix
  have pre: "\<forall>(k, v) \<in> set stored. HasPrefix k ?p"
  proof -
    have "\<forall>x \<in> set (filter (\<lambda>(k, i). HasPrefix k ?p) txn). HasPrefix (fst x) ?p"
      by auto
    then show ?thesis
      unfolding assms(3) by auto
  qed
  have "loadMeta_regions pb ?p (it_Seek txn ?p) rs
          = loadMeta_regions pb ?p (map (\<lambda>(k, v). (k, Inr v)) stored) rs" for rs
    using loadMeta_regions_takeWhile [of pb ?p "it_Seek txn ?p" rs]
      seek_prefix_filter [OF assms(1), of ?p] assms(3) by simp
  then have "loadMeta_regions pb ?p (it_Seek txn ?p) rs
          = (None, foldl (\<lambda>m (k, v). m(r_Id (Unmarshal_Region pb v) \<mapsto> Unmarshal_Region pb v))
                     rs stored)" for rs
    using loadMeta_regions_readable [OF pre] by simp
  then show ?thesis
    using assms(2) by (simp add: loadMeta_view_def txn_Get_def Let_def)
qed

text \<open>
  C8. The store is kept under the key \<open>internal\store\<close> and the region with a given id
  under \<open>internal\region\<close> followed by the id in decimal (the digits written read
  back as the id), a key with the prefix of the regions. On a database in key order
  that has a readable value under the key of the
  store and readable values under the keys with the prefix of the regions, \<open>loadMeta\<close>
  decodes the store from the value under its key and then puts the region decoded from
  each value under a key with the prefix, in key order, into the map of the node under the
  id of the region.
\<close>

theorem C8_meta_keys_and_loadMeta:
  assumes "sorted (map fst txn)"
    and "map_of txn InternalStoreMetaKey = Some (Inr val)"
    and "filter (\<lambda>(k, i). HasPrefix k InternalRegionMetaPrefix) txn
           = map (\<lambda>(k, v). (k, Inr v)) stored"
  shows "InternalStoreMetaKey = ''internal'' @ [CHR 0x5C] @ ''store''
         \<and> InternalRegionMetaKey regionId
             = ''internal'' @ [CHR 0x5C] @ ''region'' @ FormatUint10 (unat regionId)
         \<and> decimal_value (FormatUint10 (unat regionId)) = unat regionId
         \<and> HasPrefix (InternalRegionMetaKey regionId) InternalRegionMetaPrefix
         \<and> loadMeta pb txn n =
             Inr \<lparr>storeMeta = Unmarshal_Store pb val (storeMeta n),
                  regions = foldl (\<lambda>m (k, v). m(r_Id (Unmarshal_Region pb v)
                                                   \<mapsto> Unmarshal_Region pb v))
                              (regions n) stored\<rparr>"
proof -
  have "InternalStoreMetaKey = ''internal'' @ [CHR 0x5C] @ ''store''"
    by (simp add: InternalStoreMetaKey_def InternalKeyPrefix_def)
  moreover have "InternalRegionMetaKey regionId
                   = ''internal'' @ [CHR 0x5C] @ ''region'' @ FormatUint10 (unat regionId)"
    by (simp add: InternalRegionMetaKey_def InternalRegionMetaPrefix_def InternalKeyPrefix_def)
  moreover have "loadMeta pb txn n =
                   Inr \<lparr>storeMeta = Unmarshal_Store pb val (storeMeta n),
                        regions = foldl (\<lambda>m (k, v). m(r_Id (Unmarshal_Region pb v)
                                                         \<mapsto> Unmarshal_Region pb v))
                                    (regions n) stored\<rparr>"
    by (simp add: loadMeta_def loadMeta_view_loaded [OF assms])
  ultimately show ?thesis
    using InternalRegionMetaKey_HasPrefix [of regionId]
      decimal_value_FormatUint10 [of "unat regionId"] by blast
qed

theorem C8_meta_keys_and_loadMeta_witness:
  "InternalRegionMetaKey 42 = ''internal'' @ [CHR 0x5C] @ ''region42''
   \<and> loadMeta example_proto example_txn empty_node =
       Inr \<lparr>storeMeta = \<lparr>store_Id = 14, store_Address = ''127.0.0.1:9191''\<rparr>,
            regions = [1 \<mapsto> \<lparr>r_Id = 1, r_StartKey = ''r'', r_EndKey = [],
                              r_RegionEpoch = None, r_Peers = []\<rparr>,
                       2 \<mapsto> \<lparr>r_Id = 2, r_StartKey = ''rr'', r_EndKey = [],
                              r_RegionEpoch = None, r_Peers = []\<rparr>]\<rparr>"
proof -
  note keys = InternalStoreMetaKey_def InternalRegionMetaKey_def InternalRegionMetaPrefix_def
    InternalKeyPrefix_def FormatUint10.simps digit_def
  have h1: "sorted (map fst example_txn)"
    by (simp add: example_txn_def keys)
  have h2: "map_of example_txn InternalStoreMetaKey = Some (Inr ''127.0.0.1:9191'')"
    by (simp add: example_txn_def keys)
  have h3: "filter (\<lambda>(k, i). HasPrefix k InternalRegionMetaPrefix) example_txn
              = map (\<lambda>(k, v). (k, Inr v))
                  [(InternalRegionMetaKey 1, ''r''), (InternalRegionMetaKey 2, ''rr'')]"
    by (simp add: example_txn_def keys HasPrefix_def)
  show ?thesis
    using C8_meta_keys_and_loadMeta [OF h1 h2 h3, of 42 example_proto empty_node]
    by (simp add: example_proto_def empty_node_def FormatUint10.simps digit_def)
qed

end
